theory Spec2Isabelle
  imports Main "HOL-Library.Word"
begin

section \<open>Values of the JavaScript runtime\<close>

text \<open>
  The contribution file \<^verbatim>\<open>interactive.contribution.ts\<close> is glue between services of the
  workbench. The model below keeps its functions as they are written and makes explicit
  everything they receive from outside: the values they read, the services they call and
  the state they change.
\<close>

datatype error = TypeError | SyntaxError | UnexpectedType

text \<open>A URI with the five components of \<^verbatim>\<open>vs/base/common/uri\<close>.\<close>

record uri =
  scheme :: string
  authority :: string
  path :: string
  query :: string
  fragment :: string

text \<open>
  \<^verbatim>\<open>URI.from({ scheme, path })\<close>: the components that are not given are empty.
\<close>

definition URI_from :: "string \<Rightarrow> string \<Rightarrow> uri" where
  "URI_from s p = \<lparr>scheme = s, authority = [], path = p, query = [], fragment = []\<rparr>"

text \<open>
  Plain JavaScript data as \<^verbatim>\<open>JSON.parse\<close> builds it, with one more leaf \<open>JUri\<close> for an
  instance of the class URI (what \<^verbatim>\<open>parse\<close> of \<^verbatim>\<open>vs/base/common/marshalling\<close> revives, and
  what an editor input holds). Numbers are restricted to integers: the cell kind and the
  bytes of an output are the only numbers this file writes. An object is the list of its
  own properties in insertion order. \<^verbatim>\<open>undefined\<close> is \<open>None\<close> of \<open>jsval option\<close>.
\<close>

datatype jsval =
    JNull
  | JBool bool
  | JNum int
  | JStr string
  | JArr "jsval list"
  | JObj "(string \<times> jsval) list"
  | JUri uri

text \<open>Truthiness, as the conditional operator and \<^verbatim>\<open>if\<close> test it.\<close>

fun truthy :: "jsval option \<Rightarrow> bool" where
  "truthy None = False"
| "truthy (Some JNull) = False"
| "truthy (Some (JBool b)) = b"
| "truthy (Some (JNum n)) = (n \<noteq> 0)"
| "truthy (Some (JStr s)) = (s \<noteq> [])"
| "truthy (Some (JArr xs)) = True"
| "truthy (Some (JObj kvs)) = True"
| "truthy (Some (JUri u)) = True"

text \<open>
  Reading a property \<^verbatim>\<open>v.k\<close>, for the property names this file reads (\<^verbatim>\<open>cells\<close>,
  \<^verbatim>\<open>content\<close>, \<^verbatim>\<open>language\<close>, \<^verbatim>\<open>kind\<close>, \<^verbatim>\<open>mime\<close>, \<^verbatim>\<open>outputs\<close>, \<^verbatim>\<open>metadata\<close>, \<^verbatim>\<open>outputId\<close>,
  \<^verbatim>\<open>data\<close>, \<^verbatim>\<open>resource\<close>, \<^verbatim>\<open>inputResource\<close>), none of which a prototype provides:
  \<^verbatim>\<open>undefined\<close> and \<^verbatim>\<open>null\<close> throw a TypeError, an object gives its own property, every
  other value gives \<^verbatim>\<open>undefined\<close>.
\<close>

fun get_prop :: "jsval option \<Rightarrow> string \<Rightarrow> error + jsval option" where
  "get_prop None k = Inl TypeError"
| "get_prop (Some JNull) k = Inl TypeError"
| "get_prop (Some (JObj kvs)) k = Inr (map_of kvs k)"
| "get_prop (Some v) k = Inr None"

definition bind_err :: "error + 'a \<Rightarrow> ('a \<Rightarrow> error + 'b) \<Rightarrow> error + 'b" where
  "bind_err m f = (case m of Inl e \<Rightarrow> Inl e | Inr x \<Rightarrow> f x)"

text \<open>The callback of \<^verbatim>\<open>map\<close> runs on the elements from left to right; the first throw ends it.\<close>

fun map_err :: "('a \<Rightarrow> error + 'b) \<Rightarrow> 'a list \<Rightarrow> error + 'b list" where
  "map_err f [] = Inr []"
| "map_err f (x # xs) =
     bind_err (f x) (\<lambda>y. bind_err (map_err f xs) (\<lambda>ys. Inr (y # ys)))"

text \<open>
  \<^verbatim>\<open>v.map(f)\<close>: only an array has a callable \<^verbatim>\<open>map\<close>; on every other value the call throws
  a TypeError (no property to read on \<^verbatim>\<open>undefined\<close> and \<^verbatim>\<open>null\<close>, not a function elsewhere).
\<close>

fun array_map :: "jsval option \<Rightarrow> (jsval \<Rightarrow> error + 'a) \<Rightarrow> error + 'a list" where
  "array_map (Some (JArr xs)) f = map_err f xs"
| "array_map v f = Inl TypeError"

section \<open>Services of the host\<close>

text \<open>
  The functions of the runtime and of the workbench that this file calls and does not
  define are parameters of the model:
  \<^item> \<open>uri_toString\<close>: \<^verbatim>\<open>URI.toString()\<close>;
  \<^item> \<open>JSON_stringify\<close>: \<^verbatim>\<open>JSON.stringify\<close>;
  \<^item> \<open>JSON_parse\<close>: \<^verbatim>\<open>JSON.parse\<close>, \<open>None\<close> when it throws;
  \<^item> \<open>marshalling_parse\<close>: \<^verbatim>\<open>parse\<close> of \<^verbatim>\<open>vs/base/common/marshalling\<close> (\<^verbatim>\<open>JSON.parse\<close>, then
    revival of the marshalled URIs), \<open>None\<close> when it throws;
  \<^item> \<open>TypedArray_from\<close>: \<^verbatim>\<open>Uint8Array.from\<close> on the sources that need a coercion of the
    runtime (see \<open>Uint8Array_from\<close> below).
\<close>

record host =
  uri_toString :: "uri \<Rightarrow> string"
  JSON_stringify :: "jsval \<Rightarrow> string"
  JSON_parse :: "string \<Rightarrow> jsval option"
  marshalling_parse :: "string \<Rightarrow> jsval option"
  TypedArray_from :: "jsval option \<Rightarrow> error + 8 word list"

text \<open>
  The interactive history service (\<^verbatim>\<open>IInteractiveHistoryService\<close>), over a state \<open>'h\<close> of
  its own; a getter returns a string or \<^verbatim>\<open>undefined\<close>, and the state it leaves.
\<close>

record 'h IInteractiveHistoryService =
  addToHistory :: "uri \<Rightarrow> string \<Rightarrow> 'h \<Rightarrow> 'h"
  getPreviousValue :: "uri \<Rightarrow> 'h \<Rightarrow> string option \<times> 'h"
  getNextValue :: "uri \<Rightarrow> 'h \<Rightarrow> string option \<times> 'h"
  clearHistory :: "uri \<Rightarrow> 'h \<Rightarrow> 'h"

section \<open>Notebook documents\<close>

text \<open>
  Modelled from the spec: \<^verbatim>\<open>CellKind\<close> is declared in \<^verbatim>\<open>notebookCommon\<close>, which is not among
  the sources; the spec calls it a small integer enum. \<open>CellKind_num\<close> is the number the
  runtime holds for a kind.
\<close>

datatype CellKind = Markup | Code

fun CellKind_num :: "CellKind \<Rightarrow> int" where
  "CellKind_num Markup = 1"
| "CellKind_num Code = 2"

text \<open>The live document: what \<^verbatim>\<open>backup\<close> reads of a \<^verbatim>\<open>NotebookTextModel\<close>.\<close>

record IOutputItem =
  item_mime :: string
  item_data :: "8 word list"

record ICellOutput =
  outputId :: string
  output_items :: "IOutputItem list"

record NotebookCellTextModel =
  cellKind :: CellKind
  language :: string
  metadata :: "jsval option"
  mime :: "string option"
  outputs :: "ICellOutput list"
  getValue :: string

record NotebookTextModel =
  uri :: uri
  cells :: "NotebookCellTextModel list"

text \<open>
  The data \<^verbatim>\<open>open\<close> returns and \<^verbatim>\<open>interactive.execute\<close> inserts. \<^verbatim>\<open>open\<close> copies the parsed
  values without a check (the cast of TypeScript is erased), so every field holds what the
  runtime holds: any value, or \<^verbatim>\<open>undefined\<close>.
\<close>

record OutputItemData =
  data_mime :: "jsval option"
  data_bytes :: "8 word list"

record CellOutputData =
  data_outputId :: "jsval option"
  data_items :: "OutputItemData list"

record CellData =
  data_source :: "jsval option"
  data_language :: "jsval option"
  data_cellKind :: "jsval option"
  data_cell_mime :: "jsval option"
  data_outputs :: "CellOutputData list"
  data_metadata :: "jsval option"

section \<open>The editor pane and the history commands\<close>

text \<open>
  \<^verbatim>\<open>editorService.activeEditorPane?.getControl()\<close> gives \<^verbatim>\<open>undefined\<close> or a control with a
  notebook editor and a code editor (the input pane); each command tests both. The text
  model of the input pane is the string it holds.
\<close>

record NotebookKernel =
  supportedLanguages :: "string list"

record NotebookEditorWidget =
  textModel :: "NotebookTextModel option"
  activeKernel :: "NotebookKernel option"

record CodeEditorWidget =
  getModel :: "string option"

record EditorControl =
  notebookEditor :: "NotebookEditorWidget option"
  codeEditor :: "CodeEditorWidget option"

datatype CellEditType = Replace

record CellEdit =
  editType :: CellEditType
  index :: nat
  count :: nat
  edit_cells :: "CellData list"

record ResourceNotebookCellEdit =
  edit_resource :: uri
  cellEdit :: CellEdit

text \<open>
  The state the commands work on: the control of the active pane, the state of the history
  service, and what was handed to the bulk-edit service and to the notebook editor
  (\<^verbatim>\<open>executeNotebookCells\<close>, \<^verbatim>\<open>revealCellRangeInView\<close>), in call order.
\<close>

record 'h workbench =
  activeControl :: "EditorControl option"
  history :: 'h
  bulkEdits :: "ResourceNotebookCellEdit list"
  executedRanges :: "(nat \<times> nat) list"
  revealedRanges :: "(nat \<times> nat) list"

text \<open>
  The document and the input text the commands act on: \<^verbatim>\<open>editorControl &&
  editorControl.notebookEditor && editorControl.codeEditor\<close>, then \<^verbatim>\<open>notebookDocument &&
  textModel\<close>. \<open>None\<close> when a test fails, and the command does nothing.
\<close>

definition activeContext ::
  "'h workbench \<Rightarrow> (EditorControl \<times> NotebookEditorWidget \<times> CodeEditorWidget \<times> NotebookTextModel \<times> string) option" where
  "activeContext w =
     (case activeControl w of
        None \<Rightarrow> None
      | Some ec \<Rightarrow>
          (case notebookEditor ec of
             None \<Rightarrow> None
           | Some ne \<Rightarrow>
               (case codeEditor ec of
                  None \<Rightarrow> None
                | Some ce \<Rightarrow>
                    (case textModel ne of
                       None \<Rightarrow> None
                     | Some nd \<Rightarrow>
                         (case getModel ce of
                            None \<Rightarrow> None
                          | Some tm \<Rightarrow> Some (ec, ne, ce, nd, tm))))))"

text \<open>\<^verbatim>\<open>textModel.setValue(v)\<close> on the input pane of the control.\<close>

definition setValue :: "string \<Rightarrow> EditorControl \<Rightarrow> CodeEditorWidget \<Rightarrow> EditorControl" where
  "setValue v ec ce = ec\<lparr>codeEditor := Some (ce\<lparr>getModel := Some v\<rparr>)\<rparr>"

text \<open>The text the input pane holds, when there is one.\<close>

definition inputText :: "'h workbench \<Rightarrow> string option" where
  "inputText w =
     (case activeControl w of
        None \<Rightarrow> None
      | Some ec \<Rightarrow> (case codeEditor ec of None \<Rightarrow> None | Some ce \<Rightarrow> getModel ce))"

text \<open>
  \<^verbatim>\<open>interactive.history.previous\<close>: \<^verbatim>\<open>if (previousValue) textModel.setValue(previousValue)\<close>.
  The test is the truthiness of a \<^verbatim>\<open>string | undefined\<close>.
\<close>

definition history_previous_run ::
  "'h IInteractiveHistoryService \<Rightarrow> 'h workbench \<Rightarrow> 'h workbench" where
  "history_previous_run svc w =
     (case activeContext w of
        None \<Rightarrow> w
      | Some (ec, ne, ce, nd, tm) \<Rightarrow>
          (case getPreviousValue svc (uri nd) (history w) of
             (previousValue, h) \<Rightarrow>
               (case previousValue of
                  None \<Rightarrow> w\<lparr>history := h\<rparr>
                | Some v \<Rightarrow>
                    if v \<noteq> [] then w\<lparr>history := h, activeControl := Some (setValue v ec ce)\<rparr>
                    else w\<lparr>history := h\<rparr>)))"

text \<open>\<^verbatim>\<open>interactive.history.next\<close>: the same with \<^verbatim>\<open>getNextValue\<close>.\<close>

definition history_next_run ::
  "'h IInteractiveHistoryService \<Rightarrow> 'h workbench \<Rightarrow> 'h workbench" where
  "history_next_run svc w =
     (case activeContext w of
        None \<Rightarrow> w
      | Some (ec, ne, ce, nd, tm) \<Rightarrow>
          (case getNextValue svc (uri nd) (history w) of
             (previousValue, h) \<Rightarrow>
               (case previousValue of
                  None \<Rightarrow> w\<lparr>history := h\<rparr>
                | Some v \<Rightarrow>
                    if v \<noteq> [] then w\<lparr>history := h, activeControl := Some (setValue v ec ce)\<rparr>
                    else w\<lparr>history := h\<rparr>)))"

text \<open>
  \<^verbatim>\<open>interactive.execute\<close>. The language is \<^verbatim>\<open>activeKernel?.supportedLanguages[0] ??
  'plaintext'\<close>. The history service is called before the input pane is cleared and before
  the edit is handed to the bulk-edit service; the edit replaces \<^verbatim>\<open>count: 0\<close> cells at
  \<^verbatim>\<open>index: notebookDocument.length\<close> by one cell.
\<close>

definition execute_language :: "NotebookEditorWidget \<Rightarrow> string" where
  "execute_language ne =
     (case activeKernel ne of
        None \<Rightarrow> ''plaintext''
      | Some k \<Rightarrow> (case supportedLanguages k of [] \<Rightarrow> ''plaintext'' | l # ls \<Rightarrow> l))"

definition execute_cell :: "string \<Rightarrow> string \<Rightarrow> CellData" where
  "execute_cell lang v =
     \<lparr>data_source = Some (JStr v),
      data_language = Some (JStr lang),
      data_cellKind = Some (JNum (CellKind_num Code)),
      data_cell_mime = None,
      data_outputs = [],
      data_metadata = Some (JObj [])\<rparr>"

definition interactive_execute_run ::
  "'h IInteractiveHistoryService \<Rightarrow> 'h workbench \<Rightarrow> 'h workbench" where
  "interactive_execute_run svc w =
     (case activeContext w of
        None \<Rightarrow> w
      | Some (ec, ne, ce, notebookDocument, tm) \<Rightarrow>
          (let lang = execute_language ne;
               idx = length (cells notebookDocument);
               v = tm
           in w\<lparr>history := addToHistory svc (uri notebookDocument) [] (history w),
                activeControl := Some (setValue [] ec ce),
                bulkEdits := bulkEdits w @
                  [\<lparr>edit_resource = uri notebookDocument,
                    cellEdit = \<lparr>editType = Replace, index = idx, count = 0,
                                edit_cells = [execute_cell lang v]\<rparr>\<rparr>],
                executedRanges := executedRanges w @ [(idx, idx + 1)],
                revealedRanges := revealedRanges w @ [(idx, idx + 1)]\<rparr>))"

text \<open>
  Modelled from the spec: the bulk-edit service and the notebook model that applies a cell
  edit are not among the sources; the spec says that execute-code "appends it as a new
  executable cell". A \<open>Replace\<close> edit takes \<open>count\<close> cells out at \<open>index\<close> and puts the cells
  of the edit there.
\<close>

definition replaceCells :: "CellEdit \<Rightarrow> CellData list \<Rightarrow> CellData list" where
  "replaceCells e cs = take (index e) cs @ edit_cells e @ drop (index e + count e) cs"

section \<open>Opening an interactive window\<close>

text \<open>
  The two scheme tags of \<^verbatim>\<open>Schemas\<close> (\<^verbatim>\<open>vs/base/common/network\<close>) this file uses; their
  values are parameters.
\<close>

record Schemas =
  vscodeInteractive :: string
  vscodeInteractiveInput :: string

text \<open>
  An editor input is an \<^verbatim>\<open>InteractiveEditorInput\<close>, with the resource of its primary
  (notebook) input and its \<^verbatim>\<open>inputResource\<close>, or another input with or without a resource.
  \<^verbatim>\<open>InteractiveEditorInput.create\<close> is the constructor.
\<close>

datatype EditorInput =
    InteractiveEditorInput uri uri
  | OtherEditorInput "uri option"

fun input_resource :: "EditorInput \<Rightarrow> uri option" where
  "input_resource (InteractiveEditorInput r i) = Some r"
| "input_resource (OtherEditorInput r) = r"

record EditorIdentifier =
  editor :: EditorInput
  groupId :: nat

text \<open>
  The editor service: \<^verbatim>\<open>getEditors(EditorsOrder.SEQUENTIAL)\<close> and \<^verbatim>\<open>findEditors(resource)\<close>.
\<close>

record IEditorService =
  getEditors :: "EditorIdentifier list"
  findEditors :: "uri \<Rightarrow> EditorIdentifier list"

text \<open>
  The template literal \<^verbatim>\<open>${counter}\<close>: the decimal digits of the counter, which holds a
  positive integer.
\<close>

definition digit :: "nat \<Rightarrow> char" where
  "digit d = ''0123456789'' ! d"

fun number_toString :: "nat \<Rightarrow> string" where
  "number_toString n =
     (if n < 10 then [digit n] else number_toString (n div 10) @ [digit (n mod 10)])"

declare number_toString.simps [simp del]

definition notebookUri_for :: "Schemas \<Rightarrow> nat \<Rightarrow> uri" where
  "notebookUri_for sch counter =
     URI_from (vscodeInteractive sch) (''Interactive-'' @ number_toString counter @ ''.interactive'')"

definition inputUri_for :: "Schemas \<Rightarrow> nat \<Rightarrow> uri" where
  "inputUri_for sch counter =
     URI_from (vscodeInteractiveInput sch) (''InteractiveInput-'' @ number_toString counter)"

text \<open>
  \<^verbatim>\<open>existingNotebookDocument\<close>: the strings of the resources of the open editors (an editor
  without a resource adds nothing).
\<close>

definition existingNotebookDocument :: "host \<Rightarrow> IEditorService \<Rightarrow> string set" where
  "existingNotebookDocument h es =
     set (List.map_filter (\<lambda>e. map_option (uri_toString h) (input_resource (editor e))) (getEditors es))"

text \<open>
  The \<^verbatim>\<open>do ... while\<close> loop: both URIs are built from the counter, the counter is
  incremented, and the loop goes on while the set has the string of the notebook URI. The
  function is partial: \<open>None\<close> is the loop that does not end.
\<close>

partial_function (option) mint :: "host \<Rightarrow> Schemas \<Rightarrow> string set \<Rightarrow> nat \<Rightarrow> (uri \<times> uri) option" where
  "mint h sch existing counter =
     (if uri_toString h (notebookUri_for sch counter) \<in> existing
      then mint h sch existing (counter + 1)
      else Some (notebookUri_for sch counter, inputUri_for sch counter))"

text \<open>
  The first part of \<^verbatim>\<open>run\<close>: a resource of scheme \<^verbatim>\<open>vscodeInteractive\<close> that an open
  interactive editor already shows is reused. The filter keeps the editors that are an
  \<^verbatim>\<open>InteractiveEditorInput\<close> with the string of the resource; the first one is taken.
\<close>

definition existing_session ::
  "host \<Rightarrow> Schemas \<Rightarrow> IEditorService \<Rightarrow> uri option \<Rightarrow> (uri \<times> uri \<times> EditorIdentifier) option" where
  "existing_session h sch es resource =
     (case resource of
        None \<Rightarrow> None
      | Some resourceUri \<Rightarrow>
          if scheme resourceUri = vscodeInteractive sch then
            (case List.map_filter
                    (\<lambda>ident.
                       (case editor ident of
                          InteractiveEditorInput r i \<Rightarrow>
                            if uri_toString h r = uri_toString h resourceUri
                            then Some (r, i, ident) else None
                        | OtherEditorInput r \<Rightarrow> None))
                    (findEditors es resourceUri) of
               [] \<Rightarrow> None
             | found # rest \<Rightarrow> Some found)
          else None)"

text \<open>
  What \<^verbatim>\<open>run\<close> returns and does: the pair of URIs, the editor input it opens with its group,
  and the state of the history service (cleared for a fresh notebook URI). The result is
  \<open>None\<close> when the loop does not end.
\<close>

record 'h open_result =
  notebookUri :: uri
  inputUri :: uri
  opened :: "EditorInput \<times> nat"
  history_after :: 'h

definition interactive_open_run ::
  "host \<Rightarrow> Schemas \<Rightarrow> 'h IInteractiveHistoryService \<Rightarrow> IEditorService \<Rightarrow> nat \<Rightarrow> uri option \<Rightarrow> 'h
     \<Rightarrow> 'h open_result option" where
  "interactive_open_run h sch svc es viewGroup resource hist =
     (case existing_session h sch es resource of
        Some (r, i, ident) \<Rightarrow>
          Some \<lparr>notebookUri = r, inputUri = i,
                opened = (editor ident, groupId ident), history_after = hist\<rparr>
      | None \<Rightarrow>
          (case mint h sch (existingNotebookDocument h es) 1 of
             None \<Rightarrow> None
           | Some (nu, iu) \<Rightarrow>
               Some \<lparr>notebookUri = nu, inputUri = iu,
                     opened = (InteractiveEditorInput nu iu, viewGroup),
                     history_after = clearHistory svc nu hist\<rparr>))"

section \<open>The content provider: open and backup\<close>

text \<open>
  A \<^verbatim>\<open>VSBuffer\<close> is modelled by the text it holds: \<^verbatim>\<open>VSBuffer.fromString\<close> wraps a string,
  \<^verbatim>\<open>toString\<close> gives it back (the UTF-8 bytes between the two are not modelled).
\<close>

datatype VSBuffer = VSBuffer string

fun VSBuffer_toString :: "VSBuffer \<Rightarrow> string" where
  "VSBuffer_toString (VSBuffer s) = s"

definition VSBuffer_fromString :: "string \<Rightarrow> VSBuffer" where
  "VSBuffer_fromString s = VSBuffer s"

text \<open>The argument \<^verbatim>\<open>_backupId: string | VSBuffer | undefined\<close> of \<^verbatim>\<open>open\<close>.\<close>

datatype BackupId = BackupIdString string | BackupIdBuffer VSBuffer | BackupIdUndefined

text \<open>What \<^verbatim>\<open>backup\<close> returns: a buffer, or the string \<^verbatim>\<open>''\<close>.\<close>

datatype BackupResult = BackupText string | BackupData VSBuffer

text \<open>
  \<^verbatim>\<open>contentOptions\<close>, the object the controller hands out as \<^verbatim>\<open>transientOptions\<close>; the
  setter \<^verbatim>\<open>options\<close> overwrites its three fields.
\<close>

record TransientOptions =
  transientOutputs :: bool
  transientCellMetadata :: "(string \<times> bool) list"
  transientDocumentMetadata :: "(string \<times> bool) list"

definition contentOptions_initial :: TransientOptions where
  "contentOptions_initial =
     \<lparr>transientOutputs = True, transientCellMetadata = [], transientDocumentMetadata = []\<rparr>"

definition set_options :: "TransientOptions \<Rightarrow> TransientOptions \<Rightarrow> TransientOptions" where
  "set_options newOptions contentOptions =
     contentOptions\<lparr>transientCellMetadata := transientCellMetadata newOptions,
                    transientDocumentMetadata := transientDocumentMetadata newOptions,
                    transientOutputs := transientOutputs newOptions\<rparr>"

record NotebookData =
  data_document_metadata :: jsval
  data_cells :: "CellData list"

record NotebookDataDto =
  data :: NotebookData
  transientOptions :: TransientOptions

text \<open>
  \<^verbatim>\<open>Array.from(ot.data)\<close> on a \<^verbatim>\<open>Uint8Array\<close>: the array of its bytes as numbers.
\<close>

definition Array_from :: "8 word list \<Rightarrow> jsval" where
  "Array_from bs = JArr (map (\<lambda>b. JNum (uint b)) bs)"

text \<open>
  \<^verbatim>\<open>Uint8Array.from(v)\<close>: \<^verbatim>\<open>undefined\<close> and \<^verbatim>\<open>null\<close> throw a TypeError; an array of numbers
  gives each number modulo 256. Every other source (an array with an element that is not
  a number, a string, an object) goes through the coercions of the runtime, which are
  left to the host.
\<close>

fun byte_of :: "jsval \<Rightarrow> 8 word option" where
  "byte_of (JNum n) = Some (word_of_int n)"
| "byte_of v = None"

definition Uint8Array_from :: "host \<Rightarrow> jsval option \<Rightarrow> error + 8 word list" where
  "Uint8Array_from h v =
     (case v of
        None \<Rightarrow> Inl TypeError
      | Some JNull \<Rightarrow> Inl TypeError
      | Some (JArr xs) \<Rightarrow>
          (case those (map byte_of xs) of
             Some bs \<Rightarrow> Inr bs
           | None \<Rightarrow> TypedArray_from h v)
      | Some other \<Rightarrow> TypedArray_from h v)"

text \<open>
  The three nested callbacks of \<^verbatim>\<open>open\<close>, innermost first. The properties of an object
  literal are evaluated in the order they are written.
\<close>

definition open_item :: "host \<Rightarrow> jsval \<Rightarrow> error + OutputItemData" where
  "open_item h ot =
     bind_err (get_prop (Some ot) ''mime'') (\<lambda>m.
     bind_err (get_prop (Some ot) ''data'') (\<lambda>d.
     bind_err (Uint8Array_from h d) (\<lambda>bs.
     Inr \<lparr>data_mime = m, data_bytes = bs\<rparr>)))"

definition open_output :: "host \<Rightarrow> jsval \<Rightarrow> error + CellOutputData" where
  "open_output h output =
     bind_err (get_prop (Some output) ''outputId'') (\<lambda>oid.
     bind_err (get_prop (Some output) ''outputs'') (\<lambda>os.
     bind_err (array_map os (open_item h)) (\<lambda>items.
     Inr \<lparr>data_outputId = oid, data_items = items\<rparr>)))"

definition open_cell :: "host \<Rightarrow> jsval \<Rightarrow> error + CellData" where
  "open_cell h cell =
     bind_err (get_prop (Some cell) ''content'') (\<lambda>content.
     bind_err (get_prop (Some cell) ''language'') (\<lambda>lang.
     bind_err (get_prop (Some cell) ''kind'') (\<lambda>kind.
     bind_err (get_prop (Some cell) ''mime'') (\<lambda>m.
     bind_err (get_prop (Some cell) ''outputs'') (\<lambda>os.
     bind_err (if truthy os then array_map os (open_output h) else Inr []) (\<lambda>outs.
     bind_err (get_prop (Some cell) ''metadata'') (\<lambda>md.
     Inr \<lparr>data_source = content, data_language = lang, data_cellKind = kind,
          data_cell_mime = m, data_outputs = outs, data_metadata = md\<rparr>)))))))"

text \<open>The document \<^verbatim>\<open>open\<close> returns when there is no usable backup.\<close>

definition empty_document :: "TransientOptions \<Rightarrow> NotebookDataDto" where
  "empty_document contentOptions =
     \<lparr>data = \<lparr>data_document_metadata = JObj [], data_cells = []\<rparr>,
      transientOptions = contentOptions\<rparr>"

text \<open>The body of the \<^verbatim>\<open>try\<close> block of \<^verbatim>\<open>open\<close>: \<open>Inl\<close> is what it throws.\<close>

definition open_try :: "host \<Rightarrow> TransientOptions \<Rightarrow> VSBuffer \<Rightarrow> error + NotebookDataDto" where
  "open_try h contentOptions b =
     (case JSON_parse h (VSBuffer_toString b) of
        None \<Rightarrow> Inl SyntaxError
      | Some document \<Rightarrow>
          bind_err (get_prop (Some document) ''cells'') (\<lambda>cs.
          bind_err (array_map cs (open_cell h)) (\<lambda>cells'.
          Inr \<lparr>data = \<lparr>data_document_metadata = JObj [], data_cells = cells'\<rparr>,
               transientOptions = contentOptions\<rparr>)))"

text \<open>
  \<^verbatim>\<open>open\<close>. Its arguments \<^verbatim>\<open>_uri\<close>, \<^verbatim>\<open>_untitledDocumentData\<close> and \<^verbatim>\<open>_token\<close> are not read.
  The \<^verbatim>\<open>catch\<close> is empty, so whatever the \<^verbatim>\<open>try\<close> block throws leads to the last \<^verbatim>\<open>return\<close>.
\<close>

definition controller_open :: "host \<Rightarrow> TransientOptions \<Rightarrow> BackupId \<Rightarrow> NotebookDataDto" where
  "controller_open h contentOptions backupId =
     (case backupId of
        BackupIdBuffer b \<Rightarrow>
          (case open_try h contentOptions b of
             Inr result \<Rightarrow> result
           | Inl e \<Rightarrow> empty_document contentOptions)
      | BackupIdString s \<Rightarrow> empty_document contentOptions
      | BackupIdUndefined \<Rightarrow> empty_document contentOptions)"

text \<open>
  An object literal handed to \<^verbatim>\<open>JSON.stringify\<close>: a property whose value is \<^verbatim>\<open>undefined\<close>
  is left out of the text, so it is left out of the value that is serialized.
\<close>

definition js_object :: "(string \<times> jsval option) list \<Rightarrow> jsval" where
  "js_object kvs = JObj (List.map_filter (\<lambda>(k, v). map_option (Pair k) v) kvs)"

text \<open>
  The callbacks of \<^verbatim>\<open>backup\<close>. The mime type of a cell is written under the key \<^verbatim>\<open>mine\<close>.
\<close>

definition backup_item :: "IOutputItem \<Rightarrow> jsval" where
  "backup_item ot =
     js_object [(''mime'', Some (JStr (item_mime ot))),
                (''data'', Some (Array_from (item_data ot)))]"

definition backup_output :: "ICellOutput \<Rightarrow> jsval" where
  "backup_output output =
     js_object [(''outputId'', Some (JStr (outputId output))),
                (''outputs'', Some (JArr (map backup_item (output_items output))))]"

definition backup_cell :: "NotebookCellTextModel \<Rightarrow> jsval" where
  "backup_cell cell =
     js_object [(''kind'', Some (JNum (CellKind_num (cellKind cell)))),
                (''language'', Some (JStr (language cell))),
                (''metadata'', metadata cell),
                (''mine'', map_option JStr (mime cell)),
                (''outputs'', Some (JArr (map backup_output (outputs cell)))),
                (''content'', Some (JStr (getValue cell)))]"

definition backup_document :: "NotebookTextModel \<Rightarrow> jsval" where
  "backup_document doc = js_object [(''cells'', Some (JArr (map backup_cell (cells doc))))]"

text \<open>
  \<^verbatim>\<open>backup\<close>: the document is looked up in \<^verbatim>\<open>notebookService.listNotebookDocuments()\<close> by the
  string of its URI. The argument \<^verbatim>\<open>token\<close> is not read.
\<close>

definition controller_backup :: "host \<Rightarrow> NotebookTextModel list \<Rightarrow> uri \<Rightarrow> BackupResult" where
  "controller_backup h listNotebookDocuments u =
     (case find (\<lambda>document. uri_toString h (uri document) = uri_toString h u) listNotebookDocuments of
        Some doc \<Rightarrow> BackupData (VSBuffer_fromString (JSON_stringify h (backup_document doc)))
      | None \<Rightarrow> BackupText [])"

section \<open>The serializer of the editor input\<close>

text \<open>
  \<^verbatim>\<open>serialize\<close>: \<^verbatim>\<open>assertType\<close> throws on an input of another class.
\<close>

definition serialize :: "host \<Rightarrow> EditorInput \<Rightarrow> error + string" where
  "serialize h input =
     (case input of
        InteractiveEditorInput r i \<Rightarrow>
          Inr (JSON_stringify h (js_object [(''resource'', Some (JUri r)),
                                            (''inputResource'', Some (JUri i))]))
      | OtherEditorInput r \<Rightarrow> Inl UnexpectedType)"

text \<open>
  The type guard \<^verbatim>\<open>URI.isUri\<close>: it holds of an instance of URI, and gives the URI then.
  Data that \<^verbatim>\<open>JSON.parse\<close> built has no function, so the structural test of \<^verbatim>\<open>isUri\<close> fails
  on it.
\<close>

fun isUri :: "jsval option \<Rightarrow> uri option" where
  "isUri (Some (JUri u)) = Some u"
| "isUri v = None"

text \<open>
  \<^verbatim>\<open>deserialize\<close>: \<open>Inl\<close> is what it throws, \<open>Inr None\<close> is \<^verbatim>\<open>undefined\<close>.
\<close>

definition deserialize :: "host \<Rightarrow> string \<Rightarrow> error + EditorInput option" where
  "deserialize h raw =
     (case marshalling_parse h raw of
        None \<Rightarrow> Inl SyntaxError
      | Some d \<Rightarrow>
          if \<not> truthy (Some d) then Inr None
          else
            bind_err (get_prop (Some d) ''resource'') (\<lambda>resource.
            bind_err (get_prop (Some d) ''inputResource'') (\<lambda>inputResource.
              (case (isUri resource, isUri inputResource) of
                 (Some r, Some i) \<Rightarrow> Inr (Some (InteractiveEditorInput r i))
               | other \<Rightarrow> Inr None))))"

section \<open>A history store and a host to run the model on\<close>

text \<open>
  Modelled from the spec: the history service is not among the sources. The spec (4.1)
  describes a log of entries per document and a cursor that is at the bottom boundary
  (\<open>None\<close>) or at an entry: \<^verbatim>\<open>addToHistory\<close> appends and resets the cursor; \<^verbatim>\<open>getPreviousValue\<close>
  moves from the bottom to the last entry, else one step to the start, and returns nothing
  at the first entry; \<^verbatim>\<open>getNextValue\<close> returns nothing at the bottom, else moves one step to
  the bottom, and past the last entry goes to the bottom and returns nothing;
  \<^verbatim>\<open>clearHistory\<close> empties the log. An unknown document has the empty log.
\<close>

record HistoryLog =
  entries :: "string list"
  cursor :: "nat option"

definition store_empty :: "uri \<Rightarrow> HistoryLog" where
  "store_empty = (\<lambda>u. \<lparr>entries = [], cursor = None\<rparr>)"

definition store_addToHistory :: "uri \<Rightarrow> string \<Rightarrow> (uri \<Rightarrow> HistoryLog) \<Rightarrow> (uri \<Rightarrow> HistoryLog)" where
  "store_addToHistory u t st = st(u := \<lparr>entries = entries (st u) @ [t], cursor = None\<rparr>)"

definition store_getPreviousValue ::
  "uri \<Rightarrow> (uri \<Rightarrow> HistoryLog) \<Rightarrow> string option \<times> (uri \<Rightarrow> HistoryLog)" where
  "store_getPreviousValue u st =
     (case cursor (st u) of
        None \<Rightarrow>
          (case entries (st u) of
             [] \<Rightarrow> (None, st)
           | e # es \<Rightarrow>
               (Some (last (e # es)), st(u := (st u)\<lparr>cursor := Some (length es)\<rparr>)))
      | Some i \<Rightarrow>
          if i = 0 \<or> length (entries (st u)) < i then (None, st)
          else (Some (entries (st u) ! (i - 1)), st(u := (st u)\<lparr>cursor := Some (i - 1)\<rparr>)))"

definition store_getNextValue ::
  "uri \<Rightarrow> (uri \<Rightarrow> HistoryLog) \<Rightarrow> string option \<times> (uri \<Rightarrow> HistoryLog)" where
  "store_getNextValue u st =
     (case cursor (st u) of
        None \<Rightarrow> (None, st)
      | Some i \<Rightarrow>
          if i + 1 < length (entries (st u))
          then (Some (entries (st u) ! (i + 1)), st(u := (st u)\<lparr>cursor := Some (i + 1)\<rparr>))
          else (None, st(u := (st u)\<lparr>cursor := None\<rparr>)))"

definition store_clearHistory :: "uri \<Rightarrow> (uri \<Rightarrow> HistoryLog) \<Rightarrow> (uri \<Rightarrow> HistoryLog)" where
  "store_clearHistory u st = st(u := \<lparr>entries = [], cursor = None\<rparr>)"

definition history_store :: "(uri \<Rightarrow> HistoryLog) IInteractiveHistoryService" where
  "history_store =
     \<lparr>addToHistory = store_addToHistory,
      getPreviousValue = store_getPreviousValue,
      getNextValue = store_getNextValue,
      clearHistory = store_clearHistory\<rparr>"

text \<open>
  A host to evaluate the model on concrete inputs: a printer and a parser of compact JSON
  text (no white space; in a string only the quotation mark and the backslash are
  escaped), the revival of marshalled URIs, and a URI printed from its components.
\<close>

definition dquote :: char where
  "dquote = CHR 0x22"

definition backslash :: char where
  "backslash = CHR 0x5C"

definition quote_text :: "string \<Rightarrow> string" where
  "quote_text s =
     [dquote] @ concat (map (\<lambda>c. if c = dquote \<or> c = backslash then [backslash, c] else [c]) s)
       @ [dquote]"

fun commas :: "string list \<Rightarrow> string" where
  "commas [] = []"
| "commas [x] = x"
| "commas (x # y # ys) = x @ '','' @ commas (y # ys)"

definition int_text :: "int \<Rightarrow> string" where
  "int_text n = (if n < 0 then ''-'' @ number_toString (nat (- n)) else number_toString (nat n))"

text \<open>\<^verbatim>\<open>URI.toJSON\<close>: the marker \<^verbatim>\<open>$mid: 1\<close> and the components that are not empty.\<close>

definition uri_toJSON :: "uri \<Rightarrow> (string \<times> string) list" where
  "uri_toJSON u =
     filter (\<lambda>(k, v). v \<noteq> [])
       [(''path'', path u), (''scheme'', scheme u), (''authority'', authority u),
        (''query'', query u), (''fragment'', fragment u)]"

fun json_text :: "jsval \<Rightarrow> string" where
  "json_text JNull = ''null''"
| "json_text (JBool b) = (if b then ''true'' else ''false'')"
| "json_text (JNum n) = int_text n"
| "json_text (JStr s) = quote_text s"
| "json_text (JArr xs) = ''['' @ commas (map json_text xs) @ '']''"
| "json_text (JObj kvs) =
     ''{'' @ commas (map (\<lambda>kv. quote_text (fst kv) @ '':'' @ json_text (snd kv)) kvs) @ ''}''"
| "json_text (JUri u) =
     ''{'' @ commas ((quote_text ''$mid'' @ '':1'') #
                     map (\<lambda>kv. quote_text (fst kv) @ '':'' @ quote_text (snd kv)) (uri_toJSON u)) @ ''}''"

text \<open>The characters of a string literal after its opening quotation mark, and the rest.\<close>

fun parse_string :: "string \<Rightarrow> (string \<times> string) option" where
  "parse_string [] = None"
| "parse_string (c # r) =
     (if c = dquote then Some ([], r)
      else if c = backslash then
        (case r of
           [] \<Rightarrow> None
         | e # r' \<Rightarrow>
             if e = dquote \<or> e = backslash
             then map_option (\<lambda>(s, t). (e # s, t)) (parse_string r')
             else None)
      else map_option (\<lambda>(s, t). (c # s, t)) (parse_string r))"

definition is_digit :: "char \<Rightarrow> bool" where
  "is_digit c = (c \<in> set ''0123456789'')"

definition digit_value :: "char \<Rightarrow> nat" where
  "digit_value c = of_char c - 48"

definition digits_value :: "string \<Rightarrow> nat" where
  "digits_value ds = foldl (\<lambda>acc c. 10 * acc + digit_value c) 0 ds"

definition parse_number :: "string \<Rightarrow> (jsval \<times> string) option" where
  "parse_number s =
     (case s of
        [] \<Rightarrow> None
      | c # r \<Rightarrow>
          if c = CHR ''-'' then
            (if takeWhile is_digit r = [] then None
             else Some (JNum (- int (digits_value (takeWhile is_digit r))), dropWhile is_digit r))
          else
            (if takeWhile is_digit s = [] then None
             else Some (JNum (int (digits_value (takeWhile is_digit s))), dropWhile is_digit s)))"

definition starts_with :: "string \<Rightarrow> string \<Rightarrow> bool" where
  "starts_with p s = (take (length p) s = p)"

text \<open>
  A value at the head of the text, and the rest. The first argument bounds the depth of
  the recursion; \<open>json_parse\<close> gives it more than the text can need.
\<close>

fun parse_value :: "nat \<Rightarrow> string \<Rightarrow> (jsval \<times> string) option"
  and parse_elems :: "nat \<Rightarrow> string \<Rightarrow> (jsval list \<times> string) option"
  and parse_members :: "nat \<Rightarrow> string \<Rightarrow> ((string \<times> jsval) list \<times> string) option" where
  "parse_value 0 s = None"
| "parse_value (Suc f) s =
     (if starts_with ''null'' s then Some (JNull, drop 4 s)
      else if starts_with ''true'' s then Some (JBool True, drop 4 s)
      else if starts_with ''false'' s then Some (JBool False, drop 5 s)
      else if starts_with [dquote] s then
        map_option (\<lambda>(str, r). (JStr str, r)) (parse_string (drop 1 s))
      else if starts_with ''[]'' s then Some (JArr [], drop 2 s)
      else if starts_with ''['' s then
        map_option (\<lambda>(vs, r). (JArr vs, r)) (parse_elems f (drop 1 s))
      else if starts_with ''{}'' s then Some (JObj [], drop 2 s)
      else if starts_with ''{'' s then
        map_option (\<lambda>(kvs, r). (JObj kvs, r)) (parse_members f (drop 1 s))
      else parse_number s)"
| "parse_elems 0 s = None"
| "parse_elems (Suc f) s =
     (case parse_value f s of
        None \<Rightarrow> None
      | Some (v, r) \<Rightarrow>
          if starts_with '','' r then
            map_option (\<lambda>(vs, r'). (v # vs, r')) (parse_elems f (drop 1 r))
          else if starts_with '']'' r then Some ([v], drop 1 r)
          else None)"
| "parse_members 0 s = None"
| "parse_members (Suc f) s =
     (if starts_with [dquote] s then
        (case parse_string (drop 1 s) of
           None \<Rightarrow> None
         | Some (k, r) \<Rightarrow>
             if starts_with '':'' r then
               (case parse_value f (drop 1 r) of
                  None \<Rightarrow> None
                | Some (v, r') \<Rightarrow>
                    if starts_with '','' r' then
                      map_option (\<lambda>(kvs, r''). ((k, v) # kvs, r'')) (parse_members f (drop 1 r'))
                    else if starts_with ''}'' r' then Some ([(k, v)], drop 1 r')
                    else None)
             else None)
      else None)"

definition json_parse :: "string \<Rightarrow> jsval option" where
  "json_parse s =
     (case parse_value (Suc (length s)) s of
        Some (v, []) \<Rightarrow> Some v
      | other \<Rightarrow> None)"

text \<open>
  \<^verbatim>\<open>revive\<close> of \<^verbatim>\<open>vs/base/common/marshalling\<close>, for URIs: an object whose \<^verbatim>\<open>$mid\<close> is 1 becomes
  the URI of its components; arrays and other objects are revived inside.
\<close>

definition component :: "(string \<times> jsval) list \<Rightarrow> string \<Rightarrow> string" where
  "component kvs k = (case map_of kvs k of Some (JStr s) \<Rightarrow> s | other \<Rightarrow> [])"

fun revive :: "jsval \<Rightarrow> jsval" where
  "revive (JArr xs) = JArr (map revive xs)"
| "revive (JObj kvs) =
     (if map_of kvs ''$mid'' = Some (JNum 1)
      then JUri \<lparr>scheme = component kvs ''scheme'', authority = component kvs ''authority'',
                 path = component kvs ''path'', query = component kvs ''query'',
                 fragment = component kvs ''fragment''\<rparr>
      else JObj (map (\<lambda>kv. (fst kv, revive (snd kv))) kvs))"
| "revive v = v"

definition uri_text :: "uri \<Rightarrow> string" where
  "uri_text u =
     scheme u @ '':'' @ (if authority u = [] then [] else ''//'' @ authority u) @ path u
       @ (if query u = [] then [] else ''?'' @ query u)
       @ (if fragment u = [] then [] else ''#'' @ fragment u)"

definition example_host :: host where
  "example_host =
     \<lparr>uri_toString = uri_text,
      JSON_stringify = json_text,
      JSON_parse = json_parse,
      marshalling_parse = (\<lambda>s. map_option revive (json_parse s)),
      TypedArray_from = (\<lambda>v. Inr [])\<rparr>"

definition example_schemas :: Schemas where
  "example_schemas =
     \<lparr>vscodeInteractive = ''vscode-interactive'',
      vscodeInteractiveInput = ''vscode-interactive-input''\<rparr>"

text \<open>
  A history service that only records its calls: the strings it is given can be read off
  its state.
\<close>

datatype history_call =
    AddToHistory uri string
  | GetPreviousValue uri
  | GetNextValue uri
  | ClearHistory uri

definition recording_service :: "(history_call list) IInteractiveHistoryService" where
  "recording_service =
     \<lparr>addToHistory = (\<lambda>u t calls. calls @ [AddToHistory u t]),
      getPreviousValue = (\<lambda>u calls. (None, calls @ [GetPreviousValue u])),
      getNextValue = (\<lambda>u calls. (None, calls @ [GetNextValue u])),
      clearHistory = (\<lambda>u calls. calls @ [ClearHistory u])\<rparr>"

text \<open>
  An interactive window with one cell \<^verbatim>\<open>print(1)\<close> and the text \<^verbatim>\<open>1 + 1\<close> in its input pane.
\<close>

definition example_uri :: uri where
  "example_uri = notebookUri_for example_schemas 1"

definition example_cell :: NotebookCellTextModel where
  "example_cell =
     \<lparr>cellKind = Code, language = ''python'', metadata = None, mime = None, outputs = [],
      getValue = ''print(1)''\<rparr>"

definition example_document :: NotebookTextModel where
  "example_document = \<lparr>uri = example_uri, cells = [example_cell]\<rparr>"

definition example_notebookEditor :: NotebookEditorWidget where
  "example_notebookEditor =
     \<lparr>textModel = Some example_document,
      activeKernel = Some \<lparr>supportedLanguages = [''python'']\<rparr>\<rparr>"

definition example_codeEditor :: CodeEditorWidget where
  "example_codeEditor = \<lparr>getModel = Some ''1 + 1''\<rparr>"

definition example_control :: EditorControl where
  "example_control =
     \<lparr>notebookEditor = Some example_notebookEditor, codeEditor = Some example_codeEditor\<rparr>"

definition example_workbench :: "'h \<Rightarrow> 'h workbench" where
  "example_workbench hist =
     \<lparr>activeControl = Some example_control, history = hist, bulkEdits = [],
      executedRanges = [], revealedRanges = []\<rparr>"

text \<open>Two history states: one entry \<^verbatim>\<open>''\<close> with the cursor at the bottom, and two with the cursor at the first.\<close>

definition store_one :: "uri \<Rightarrow> HistoryLog" where
  "store_one = store_addToHistory example_uri [] store_empty"

definition store_two :: "uri \<Rightarrow> HistoryLog" where
  "store_two = store_empty(example_uri := \<lparr>entries = [[], []], cursor = Some 0\<rparr>)"

text \<open>
  A live output and a live output item as the data that \<^verbatim>\<open>open\<close> is to give back for them:
  the strings as string values, the bytes as they are.
\<close>

definition item_as_data :: "IOutputItem \<Rightarrow> OutputItemData" where
  "item_as_data ot = \<lparr>data_mime = Some (JStr (item_mime ot)), data_bytes = item_data ot\<rparr>"

definition output_as_data :: "ICellOutput \<Rightarrow> CellOutputData" where
  "output_as_data output =
     \<lparr>data_outputId = Some (JStr (outputId output)),
      data_items = map item_as_data (output_items output)\<rparr>"

text \<open>
  The object \<^verbatim>\<open>serialize\<close> writes for an input, with its two URIs as instances; and the
  property a destructuring reads off a value (\<^verbatim>\<open>undefined\<close> where there is none).
\<close>

definition serialized_input :: "uri \<Rightarrow> uri \<Rightarrow> jsval" where
  "serialized_input r i = JObj [(''resource'', JUri r), (''inputResource'', JUri i)]"

definition read_prop :: "jsval \<Rightarrow> string \<Rightarrow> jsval option" where
  "read_prop d k = (case get_prop (Some d) k of Inr v \<Rightarrow> v | Inl e \<Rightarrow> None)"

definition example_inputUri :: uri where
  "example_inputUri = inputUri_for example_schemas 1"

text \<open>
  A cell with a mime type, some metadata and one output of two bytes; and four open
  editors: one without a resource, the interactive window 1, and two editors of another
  class on the notebook URIs 2 and 4.
\<close>

definition mime_cell :: NotebookCellTextModel where
  "mime_cell =
     \<lparr>cellKind = Code, language = ''python'', metadata = Some (JObj []),
      mime = Some ''text/x-python'',
      outputs = [\<lparr>outputId = ''o1'',
                  output_items = [\<lparr>item_mime = ''text/plain'', item_data = [49, 10]\<rparr>]\<rparr>],
      getValue = ''print(1)''\<rparr>"

definition mime_document :: NotebookTextModel where
  "mime_document = \<lparr>uri = example_uri, cells = [mime_cell]\<rparr>"

definition example_editors :: IEditorService where
  "example_editors =
     \<lparr>getEditors =
        [\<lparr>editor = OtherEditorInput None, groupId = 0\<rparr>,
         \<lparr>editor = InteractiveEditorInput (notebookUri_for example_schemas 1)
                     (inputUri_for example_schemas 1), groupId = 0\<rparr>,
         \<lparr>editor = OtherEditorInput (Some (notebookUri_for example_schemas 2)), groupId = 1\<rparr>,
         \<lparr>editor = OtherEditorInput (Some (notebookUri_for example_schemas 4)), groupId = 1\<rparr>],
      findEditors = (\<lambda>u. [])\<rparr>"

section \<open>The history commands\<close>

lemma example_context:
  "activeContext (example_workbench hist) =
     Some (example_control, example_notebookEditor, example_codeEditor, example_document, ''1 + 1'')"
  by (simp add: activeContext_def example_workbench_def example_control_def
      example_notebookEditor_def example_codeEditor_def)

lemma example_inputText: "inputText (example_workbench hist) = Some ''1 + 1''"
  by (simp add: inputText_def example_workbench_def example_control_def example_codeEditor_def)

lemma inputText_history: "inputText (w\<lparr>history := x\<rparr>) = inputText w"
  by (simp add: inputText_def)

text \<open>
  C8. When the history service returns no value for the document of the active interactive
  editor, \<^verbatim>\<open>interactive.history.previous\<close> and \<^verbatim>\<open>interactive.history.next\<close> change nothing
  but the state of the history service itself: the input pane keeps its text. The commands
  have no way to fail: they return the state.
\<close>

theorem history_exhausted_is_silent:
  assumes "activeContext w = Some (ec, ne, ce, nd, tm)"
  shows "(fst (getPreviousValue svc (uri nd) (history w)) = None \<longrightarrow>
            history_previous_run svc w = w\<lparr>history := snd (getPreviousValue svc (uri nd) (history w))\<rparr>
            \<and> inputText (history_previous_run svc w) = inputText w)
       \<and> (fst (getNextValue svc (uri nd) (history w)) = None \<longrightarrow>
            history_next_run svc w = w\<lparr>history := snd (getNextValue svc (uri nd) (history w))\<rparr>
            \<and> inputText (history_next_run svc w) = inputText w)"
  using assms
  by (auto simp: history_previous_run_def history_next_run_def inputText_def split: prod.splits)

theorem history_exhausted_is_silent_witness:
  "fst (getPreviousValue history_store (uri example_document) store_empty) = None
   \<and> fst (getNextValue history_store (uri example_document) store_empty) = None
   \<and> inputText (history_previous_run history_store (example_workbench store_empty)) = Some ''1 + 1''
   \<and> inputText (history_next_run history_store (example_workbench store_empty)) = Some ''1 + 1''"
proof -
  have h: "history (example_workbench store_empty) = store_empty"
    by (simp add: example_workbench_def)
  have p: "fst (getPreviousValue history_store (uri example_document) store_empty) = None"
    by (simp add: history_store_def store_getPreviousValue_def store_empty_def)
  have n: "fst (getNextValue history_store (uri example_document) store_empty) = None"
    by (simp add: history_store_def store_getNextValue_def store_empty_def)
  show ?thesis
    using history_exhausted_is_silent [OF example_context, of history_store store_empty] p n
    by (simp add: h example_inputText inputText_history)
qed

text \<open>
  C9. When the history service returns the empty string, the two commands behave as when
  it returns nothing: the test \<^verbatim>\<open>if (previousValue)\<close> is false for \<^verbatim>\<open>''\<close>, and the input pane
  keeps its text.
\<close>

theorem empty_entry_leaves_text:
  assumes "activeContext w = Some (ec, ne, ce, nd, tm)"
  shows "(fst (getPreviousValue svc (uri nd) (history w)) = Some [] \<longrightarrow>
            history_previous_run svc w = w\<lparr>history := snd (getPreviousValue svc (uri nd) (history w))\<rparr>
            \<and> inputText (history_previous_run svc w) = inputText w)
       \<and> (fst (getNextValue svc (uri nd) (history w)) = Some [] \<longrightarrow>
            history_next_run svc w = w\<lparr>history := snd (getNextValue svc (uri nd) (history w))\<rparr>
            \<and> inputText (history_next_run svc w) = inputText w)"
  using assms
  by (auto simp: history_previous_run_def history_next_run_def inputText_def split: prod.splits)

theorem empty_entry_leaves_text_witness:
  "fst (getPreviousValue history_store (uri example_document) store_one) = Some []
   \<and> fst (getNextValue history_store (uri example_document) store_two) = Some []
   \<and> inputText (history_previous_run history_store (example_workbench store_one)) = Some ''1 + 1''
   \<and> inputText (history_next_run history_store (example_workbench store_two)) = Some ''1 + 1''"
proof -
  have p: "fst (getPreviousValue history_store (uri example_document) store_one) = Some []"
    by (simp add: history_store_def store_getPreviousValue_def store_empty_def store_one_def
        store_addToHistory_def example_document_def)
  have n: "fst (getNextValue history_store (uri example_document) store_two) = Some []"
    by (simp add: history_store_def store_getNextValue_def store_empty_def store_two_def
        example_document_def)
  have h: "history (example_workbench hist) = hist" for hist :: "uri \<Rightarrow> HistoryLog"
    by (simp add: example_workbench_def)
  show ?thesis
    using empty_entry_leaves_text [OF example_context, of history_store store_one]
      empty_entry_leaves_text [OF example_context, of history_store store_two] p n
    by (simp add: h example_inputText inputText_history)
qed

section \<open>The execute command\<close>

lemma example_fields:
  "history (example_workbench hist) = hist"
  "bulkEdits (example_workbench hist) = []"
  "uri example_document = example_uri"
  "length (cells example_document) = 1"
  "execute_language example_notebookEditor = ''python''"
  by (simp_all add: example_workbench_def example_document_def execute_language_def
      example_notebookEditor_def)

text \<open>
  C3, as amended. Whenever \<^verbatim>\<open>interactive.execute\<close> runs with an active interactive editor,
  the string it passes to \<^verbatim>\<open>addToHistory\<close> for the URI of the notebook document is the empty
  string, whatever text \<open>v\<close> the input pane holds: the call is written with the literal
  \<^verbatim>\<open>''\<close>, and the text \<open>v\<close> goes to the new cell only.
\<close>

theorem execute_adds_empty_string_to_history:
  assumes "activeContext w = Some (ec, ne, ce, nd, v)"
  shows "history (interactive_execute_run svc w) = addToHistory svc (uri nd) [] (history w)"
  using assms by (simp add: interactive_execute_run_def Let_def)

theorem execute_adds_empty_string_to_history_witness:
  "activeContext (example_workbench []) \<noteq> None
   \<and> history (interactive_execute_run recording_service (example_workbench []))
       = [AddToHistory example_uri []]"
  using execute_adds_empty_string_to_history [OF example_context, of recording_service "[]"]
  by (simp add: example_context recording_service_def example_fields)

text \<open>
  C3 as stated fails: with the text \<^verbatim>\<open>1 + 1\<close> in the input pane, the one call the history
  service receives is \<^verbatim>\<open>addToHistory(uri, '')\<close>, not \<^verbatim>\<open>addToHistory(uri, '1 + 1')\<close>.
\<close>

theorem execute_history_counterexample:
  "inputText (example_workbench []) = Some ''1 + 1''
   \<and> history (interactive_execute_run recording_service (example_workbench []))
       = [AddToHistory example_uri []]
   \<and> history (interactive_execute_run recording_service (example_workbench []))
       \<noteq> [AddToHistory example_uri ''1 + 1'']"
  by (simp add: example_inputText interactive_execute_run_def example_context Let_def
      recording_service_def example_fields)

text \<open>
  C4. Whenever \<^verbatim>\<open>interactive.execute\<close> runs with an active interactive editor whose notebook
  document has \<open>n\<close> cells and whose input pane holds the text \<open>v\<close>, it hands one edit to the
  bulk-edit service: a replacement of no cell at index \<open>n\<close> by exactly one cell, of kind
  Code and with source \<open>v\<close>; applied to \<open>n\<close> cells the edit puts the new cell at the end. The
  text of the input pane is set to the empty string.
\<close>

theorem execute_appends_code_cell:
  assumes "activeContext w = Some (ec, ne, ce, nd, v)"
  shows "\<exists>c. bulkEdits (interactive_execute_run svc w) =
               bulkEdits w @ [\<lparr>edit_resource = uri nd,
                                cellEdit = \<lparr>editType = Replace, index = length (cells nd), count = 0,
                                            edit_cells = [c]\<rparr>\<rparr>]
            \<and> data_cellKind c = Some (JNum (CellKind_num Code))
            \<and> data_source c = Some (JStr v)
            \<and> inputText (interactive_execute_run svc w) = Some []
            \<and> (\<forall>cs. length cs = length (cells nd) \<longrightarrow>
                  replaceCells \<lparr>editType = Replace, index = length (cells nd), count = 0,
                                edit_cells = [c]\<rparr> cs = cs @ [c])"
  using assms
  by (simp add: interactive_execute_run_def Let_def execute_cell_def inputText_def setValue_def
      replaceCells_def)

theorem execute_appends_code_cell_witness:
  "activeContext (example_workbench store_empty) \<noteq> None
   \<and> bulkEdits (interactive_execute_run history_store (example_workbench store_empty)) =
       [\<lparr>edit_resource = example_uri,
         cellEdit = \<lparr>editType = Replace, index = 1, count = 0,
                     edit_cells = [execute_cell ''python'' ''1 + 1'']\<rparr>\<rparr>]
   \<and> inputText (interactive_execute_run history_store (example_workbench store_empty)) = Some []"
  using execute_appends_code_cell [OF example_context, of history_store store_empty]
  by (simp add: example_context example_fields interactive_execute_run_def Let_def)

section \<open>Backup and restore\<close>

lemma number_toString_digit: "n < 10 \<Longrightarrow> number_toString n = [digit n]"
  by (simp add: number_toString.simps)

lemma example_numbers:
  "number_toString (Suc 0) = ''1''" "number_toString 2 = ''2''" "number_toString 3 = ''3''"
  by (simp_all add: number_toString_digit digit_def)

lemma uri_text_notebookUri:
  "uri_text (notebookUri_for sch n) =
     vscodeInteractive sch @ '':Interactive-'' @ number_toString n @ ''.interactive''"
  by (simp add: uri_text_def notebookUri_for_def URI_from_def)

text \<open>
  C6. For every buffer whose text \<^verbatim>\<open>JSON.parse\<close> rejects, \<^verbatim>\<open>open\<close> with that buffer as the
  backup returns the document with no cell and empty metadata (and the transient options
  of the controller); \<^verbatim>\<open>open\<close> has no way to fail, its empty \<^verbatim>\<open>catch\<close> takes every throw.
\<close>

theorem open_non_json_is_empty:
  assumes "JSON_parse h (VSBuffer_toString b) = None"
  shows "controller_open h contentOptions (BackupIdBuffer b) =
           \<lparr>data = \<lparr>data_document_metadata = JObj [], data_cells = []\<rparr>,
            transientOptions = contentOptions\<rparr>"
  using assms by (simp add: controller_open_def open_try_def empty_document_def)

lemma example_not_json: "json_parse ''print(1)'' = None"
  by code_simp

theorem open_non_json_is_empty_witness:
  "JSON_parse example_host (VSBuffer_toString (VSBuffer ''print(1)'')) = None
   \<and> data_cells (data (controller_open example_host contentOptions_initial
                        (BackupIdBuffer (VSBuffer ''print(1)'')))) = []"
proof -
  have p: "JSON_parse example_host (VSBuffer_toString (VSBuffer ''print(1)'')) = None"
    by (simp add: example_host_def example_not_json)
  show ?thesis
    using open_non_json_is_empty [OF p, of contentOptions_initial] p by simp
qed

text \<open>
  C7. When the URI given to \<^verbatim>\<open>backup\<close> has the string of no document that the notebook
  service lists, \<^verbatim>\<open>backup\<close> returns the empty string \<^verbatim>\<open>''\<close>: an empty result and no error.
\<close>

theorem backup_unknown_document_is_empty:
  assumes "\<forall>document \<in> set listNotebookDocuments.
             uri_toString h (uri document) \<noteq> uri_toString h u"
  shows "controller_backup h listNotebookDocuments u = BackupText []"
  using assms by (simp add: controller_backup_def find_None_iff split: option.splits)

theorem backup_unknown_document_is_empty_witness:
  "uri_toString example_host (uri example_document)
     \<noteq> uri_toString example_host (notebookUri_for example_schemas 2)
   \<and> controller_backup example_host [example_document] (notebookUri_for example_schemas 2)
       = BackupText []"
proof -
  have p: "\<forall>document \<in> set [example_document].
             uri_toString example_host (uri document)
               \<noteq> uri_toString example_host (notebookUri_for example_schemas 2)"
    by (simp add: example_host_def example_document_def example_uri_def uri_text_notebookUri
        example_numbers)
  show ?thesis
    using backup_unknown_document_is_empty [OF p] p by simp
qed

lemma example_host_toString: "uri_toString example_host = uri_text"
  by (simp add: example_host_def)

lemma those_byte_of: "those (map byte_of (map (\<lambda>b. JNum (uint b)) bs)) = Some bs"
  by (induction bs) simp_all

lemma Uint8Array_from_Array_from: "Uint8Array_from h (Some (Array_from bs)) = Inr bs"
  using those_byte_of [of bs] by (simp add: Uint8Array_from_def Array_from_def del: map_map)

lemma map_err_map:
  "(\<And>x. x \<in> set xs \<Longrightarrow> f (g x) = Inr (k x)) \<Longrightarrow> map_err f (map g xs) = Inr (map k xs)"
  by (induction xs) (simp_all add: bind_err_def)

lemma open_item_backup_item: "open_item h (backup_item ot) = Inr (item_as_data ot)"
  by (simp add: open_item_def backup_item_def js_object_def List.map_filter_simps bind_err_def
      Uint8Array_from_Array_from item_as_data_def)

lemma open_output_backup_output: "open_output h (backup_output output) = Inr (output_as_data output)"
  by (simp add: open_output_def backup_output_def js_object_def List.map_filter_simps bind_err_def
      map_err_map open_item_backup_item output_as_data_def)

lemma open_cell_backup_cell:
  "open_cell h (backup_cell cell) =
     Inr \<lparr>data_source = Some (JStr (getValue cell)),
          data_language = Some (JStr (language cell)),
          data_cellKind = Some (JNum (CellKind_num (cellKind cell))),
          data_cell_mime = None,
          data_outputs = map output_as_data (outputs cell),
          data_metadata = metadata cell\<rparr>"
  by (cases "metadata cell"; cases "mime cell")
    (simp_all add: open_cell_def backup_cell_def js_object_def List.map_filter_simps bind_err_def
      map_err_map open_output_backup_output)

lemma open_try_backup_document:
  assumes "JSON_parse h (JSON_stringify h (backup_document doc)) = Some (backup_document doc)"
  shows "open_try h contentOptions (VSBuffer_fromString (JSON_stringify h (backup_document doc))) =
     Inr \<lparr>data =
            \<lparr>data_document_metadata = JObj [],
             data_cells =
               map (\<lambda>cell. \<lparr>data_source = Some (JStr (getValue cell)),
                            data_language = Some (JStr (language cell)),
                            data_cellKind = Some (JNum (CellKind_num (cellKind cell))),
                            data_cell_mime = None,
                            data_outputs = map output_as_data (outputs cell),
                            data_metadata = metadata cell\<rparr>) (cells doc)\<rparr>,
          transientOptions = contentOptions\<rparr>"
proof -
  have "open_try h contentOptions (VSBuffer_fromString (JSON_stringify h (backup_document doc))) =
          bind_err (get_prop (Some (backup_document doc)) ''cells'') (\<lambda>cs.
          bind_err (array_map cs (open_cell h)) (\<lambda>cells'.
          Inr \<lparr>data = \<lparr>data_document_metadata = JObj [], data_cells = cells'\<rparr>,
               transientOptions = contentOptions\<rparr>))"
    using assms by (simp add: open_try_def VSBuffer_fromString_def)
  then show ?thesis
    by (simp add: backup_document_def js_object_def List.map_filter_simps bind_err_def
        map_err_map open_cell_backup_cell)
qed

text \<open>
  C1. Backup, then restore. For a document that the notebook service lists under the given
  URI, \<^verbatim>\<open>backup\<close> returns a buffer, and \<^verbatim>\<open>open\<close> on that buffer returns cells that have, in
  the order of the document, its kinds, languages, sources and outputs (output identifier,
  and mime type and bytes of every item). Metadata and mime type of a cell and the
  transient options are left out of the comparison. The runtime is assumed to read back
  what it wrote: \<^verbatim>\<open>JSON.parse\<close> of the text \<^verbatim>\<open>JSON.stringify\<close> made of the backup gives the
  backup.
\<close>

theorem backup_then_open_restores_cells:
  assumes "find (\<lambda>document. uri_toString h (uri document) = uri_toString h u)
             listNotebookDocuments = Some doc"
    and "JSON_parse h (JSON_stringify h (backup_document doc)) = Some (backup_document doc)"
  shows "\<exists>b. controller_backup h listNotebookDocuments u = BackupData b
           \<and> map (\<lambda>c. (data_cellKind c, data_language c, data_source c, data_outputs c))
                 (data_cells (data (controller_open h contentOptions (BackupIdBuffer b))))
             = map (\<lambda>cell. (Some (JNum (CellKind_num (cellKind cell))), Some (JStr (language cell)),
                            Some (JStr (getValue cell)), map output_as_data (outputs cell)))
                 (cells doc)"
  using assms
  by (simp add: controller_backup_def controller_open_def open_try_backup_document comp_def)

lemma example_roundtrip:
  "json_parse (json_text (backup_document example_document)) = Some (backup_document example_document)"
  by code_simp

lemma example_find:
  "find (\<lambda>document. uri_toString example_host (uri document) = uri_toString example_host example_uri)
     [example_document] = Some example_document"
  by (simp add: example_document_def)

theorem backup_then_open_restores_cells_witness:
  "\<exists>b. controller_backup example_host [example_document] example_uri = BackupData b
     \<and> map (\<lambda>c. (data_cellKind c, data_language c, data_source c, data_outputs c))
          (data_cells (data (controller_open example_host contentOptions_initial (BackupIdBuffer b))))
        = [(Some (JNum 2), Some (JStr ''python''), Some (JStr ''print(1)''), [])]"
proof -
  have r: "JSON_parse example_host (JSON_stringify example_host (backup_document example_document))
            = Some (backup_document example_document)"
    by (simp add: example_host_def example_roundtrip)
  show ?thesis
    using backup_then_open_restores_cells [OF example_find r, of contentOptions_initial]
    by (simp add: example_document_def example_cell_def)
qed

lemma mime_roundtrip:
  "json_parse (json_text (backup_document mime_document)) = Some (backup_document mime_document)"
  by code_simp

text \<open>
  C2. The claim asks that the mime type of a cell comes back from backup and restore.
  \<^verbatim>\<open>backup\<close> writes it under the key \<^verbatim>\<open>mine\<close> and \<^verbatim>\<open>open\<close> reads the key \<^verbatim>\<open>mime\<close>: on a cell
  with the mime type \<^verbatim>\<open>text/x-python\<close> the restored cell has none, while kind, language,
  metadata, content and outputs come back.
\<close>

theorem backup_then_open_loses_cell_mime:
  "mime mime_cell = Some ''text/x-python''
   \<and> controller_backup example_host [mime_document] example_uri
       = BackupData (VSBuffer (json_text (backup_document mime_document)))
   \<and> data_cells (data (controller_open example_host contentOptions_initial
        (BackupIdBuffer (VSBuffer (json_text (backup_document mime_document))))))
       = [\<lparr>data_source = Some (JStr ''print(1)''),
           data_language = Some (JStr ''python''),
           data_cellKind = Some (JNum 2),
           data_cell_mime = None,
           data_outputs = [\<lparr>data_outputId = Some (JStr ''o1''),
                            data_items = [\<lparr>data_mime = Some (JStr ''text/plain''),
                                           data_bytes = [49, 10]\<rparr>]\<rparr>],
           data_metadata = Some (JObj [])\<rparr>]"
proof -
  have r: "JSON_parse example_host (JSON_stringify example_host (backup_document mime_document))
            = Some (backup_document mime_document)"
    by (simp only: example_host_def host.select_convs mime_roundtrip)
  have s: "JSON_stringify example_host = json_text"
    by (simp add: example_host_def)
  have b: "controller_backup example_host [mime_document] example_uri
       = BackupData (VSBuffer (json_text (backup_document mime_document)))"
    by (simp add: controller_backup_def mime_document_def VSBuffer_fromString_def s)
  from open_try_backup_document [OF r, of contentOptions_initial]
  have "data_cells (data (controller_open example_host contentOptions_initial
        (BackupIdBuffer (VSBuffer (json_text (backup_document mime_document))))))
      = map (\<lambda>cell. \<lparr>data_source = Some (JStr (getValue cell)),
          data_language = Some (JStr (language cell)),
          data_cellKind = Some (JNum (CellKind_num (cellKind cell))),
          data_cell_mime = None,
          data_outputs = map output_as_data (outputs cell),
          data_metadata = metadata cell\<rparr>) (cells mime_document)"
    by (simp add: controller_open_def s VSBuffer_fromString_def)
  then show ?thesis
    using b by (simp add: mime_document_def mime_cell_def output_as_data_def item_as_data_def)
qed

section \<open>The serializer\<close>

text \<open>
  C10. For every interactive editor input, \<^verbatim>\<open>deserialize\<close> of the string \<^verbatim>\<open>serialize\<close> returns
  gives an input with the same primary resource and the same input resource, where the
  runtime reads back what it wrote (\<^verbatim>\<open>parse\<close> of the marshalling module on the text
  \<^verbatim>\<open>JSON.stringify\<close> made gives the object with its two URIs revived). And whenever the
  parsed payload is falsy, or one of its two fields is not a URI, \<^verbatim>\<open>deserialize\<close> returns
  \<^verbatim>\<open>undefined\<close> and does not throw.
\<close>

theorem serializer_round_trip:
  "(marshalling_parse h (JSON_stringify h (serialized_input r i)) = Some (serialized_input r i) \<longrightarrow>
      (\<exists>s. serialize h (InteractiveEditorInput r i) = Inr s
          \<and> deserialize h s = Inr (Some (InteractiveEditorInput r i))))
   \<and> (marshalling_parse h raw = Some d
        \<and> (\<not> truthy (Some d)
            \<or> isUri (read_prop d ''resource'') = None
            \<or> isUri (read_prop d ''inputResource'') = None) \<longrightarrow>
      deserialize h raw = Inr None)"
proof (intro conjI impI)
  assume "marshalling_parse h (JSON_stringify h (serialized_input r i)) = Some (serialized_input r i)"
  then show "\<exists>s. serialize h (InteractiveEditorInput r i) = Inr s
          \<and> deserialize h s = Inr (Some (InteractiveEditorInput r i))"
    by (simp add: serialize_def deserialize_def serialized_input_def js_object_def
        List.map_filter_simps bind_err_def)
next
  assume a: "marshalling_parse h raw = Some d
        \<and> (\<not> truthy (Some d)
            \<or> isUri (read_prop d ''resource'') = None
            \<or> isUri (read_prop d ''inputResource'') = None)"
  show "deserialize h raw = Inr None"
  proof (cases "truthy (Some d)")
    case False
    with a show ?thesis by (simp add: deserialize_def)
  next
    case True
    then obtain x y where g: "get_prop (Some d) ''resource'' = Inr x"
      "get_prop (Some d) ''inputResource'' = Inr y"
      by (cases d) auto
    with a True show ?thesis
      by (auto simp: deserialize_def bind_err_def read_prop_def split: option.splits)
  qed
qed

lemma example_marshalling:
  "map_option revive (json_parse (json_text (serialized_input example_uri example_inputUri)))
     = Some (serialized_input example_uri example_inputUri)"
  by code_simp

lemma example_null: "map_option revive (json_parse ''null'') = Some JNull"
  by code_simp

theorem serializer_round_trip_witness:
  "(\<exists>s. serialize example_host (InteractiveEditorInput example_uri example_inputUri) = Inr s
       \<and> deserialize example_host s
           = Inr (Some (InteractiveEditorInput example_uri example_inputUri)))
   \<and> marshalling_parse example_host ''null'' = Some JNull
   \<and> deserialize example_host ''null'' = Inr None"
proof -
  have m: "marshalling_parse example_host (JSON_stringify example_host
             (serialized_input example_uri example_inputUri))
           = Some (serialized_input example_uri example_inputUri)"
    by (simp only: example_host_def host.select_convs example_marshalling)
  have n: "marshalling_parse example_host ''null'' = Some JNull"
    by (simp only: example_host_def host.select_convs example_null)
  show ?thesis
    using serializer_round_trip [of example_host example_uri example_inputUri "''null''" JNull] m n
    by simp
qed

section \<open>Minting the URIs of a fresh session\<close>

lemma digit_inj: "a < 10 \<Longrightarrow> b < 10 \<Longrightarrow> digit a = digit b \<Longrightarrow> a = b"
proof -
  assume a: "a < 10" and b: "b < 10" and e: "digit a = digit b"
  have d: "distinct ''0123456789''" by simp
  have l: "length ''0123456789'' = 10" by simp
  from e have "''0123456789'' ! a = ''0123456789'' ! b" by (simp only: digit_def)
  with nth_eq_iff_index_eq [OF d, of a b] a b l show "a = b" by simp
qed

lemma number_toString_nonempty: "number_toString n \<noteq> []"
  by (subst number_toString.simps) simp

lemma number_toString_inj: "number_toString n = number_toString m \<Longrightarrow> n = m"
proof (induction n arbitrary: m rule: number_toString.induct)
  case (1 n)
  show ?case
  proof (cases "n < 10")
    case True
    show ?thesis
    proof (cases "m < 10")
      case mt: True
      from "1.prems" True mt have "digit n = digit m"
        by (simp add: number_toString_digit)
      with True mt show ?thesis by (rule digit_inj)
    next
      case mf: False
      from "1.prems" True have "number_toString m = [digit n]"
        by (simp add: number_toString_digit)
      moreover from mf have "number_toString m = number_toString (m div 10) @ [digit (m mod 10)]"
        by (subst number_toString.simps) simp
      ultimately have "number_toString (m div 10) = []" by simp
      with number_toString_nonempty show ?thesis by blast
    qed
  next
    case False
    then have n: "number_toString n = number_toString (n div 10) @ [digit (n mod 10)]"
      by (subst number_toString.simps) simp
    show ?thesis
    proof (cases "m < 10")
      case mt: True
      with "1.prems" n have "number_toString (n div 10) @ [digit (n mod 10)] = [digit m]"
        by (simp add: number_toString_digit)
      then have "number_toString (n div 10) = []" by simp
      with number_toString_nonempty show ?thesis by blast
    next
      case mf: False
      then have m: "number_toString m = number_toString (m div 10) @ [digit (m mod 10)]"
        by (subst number_toString.simps) simp
      from "1.prems" n m have e: "number_toString (n div 10) = number_toString (m div 10)"
        and d: "digit (n mod 10) = digit (m mod 10)" by simp_all
      from "1.IH" [OF False e] have q: "n div 10 = m div 10" .
      have r: "n mod 10 = m mod 10" using d by (intro digit_inj) simp_all
      from q r show ?thesis by (metis div_mult_mod_eq)
    qed
  qed
qed

lemma notebookUri_for_inj: "notebookUri_for sch n = notebookUri_for sch m \<Longrightarrow> n = m"
  by (simp add: notebookUri_for_def URI_from_def number_toString_inj)

lemma mint_reaches:
  "uri_toString h (notebookUri_for sch n) \<notin> existing \<Longrightarrow>
   (\<forall>m. j \<le> m \<and> m < n \<longrightarrow> uri_toString h (notebookUri_for sch m) \<in> existing) \<Longrightarrow>
   j \<le> n \<Longrightarrow>
   mint h sch existing j = Some (notebookUri_for sch n, inputUri_for sch n)"
proof (induction "n - j" arbitrary: j)
  case 0
  then have "j = n" by simp
  with "0.prems" show ?case by (subst mint.simps) simp
next
  case (Suc d)
  then have lt: "j < n" by simp
  with Suc.prems have "uri_toString h (notebookUri_for sch j) \<in> existing" by simp
  then have "mint h sch existing j = mint h sch existing (j + 1)"
    by (subst mint.simps) simp
  moreover have "mint h sch existing (j + 1) = Some (notebookUri_for sch n, inputUri_for sch n)"
    using Suc.hyps(2) Suc.prems lt by (intro Suc.hyps(1)) auto
  ultimately show ?case by simp
qed

lemma free_suffix_exists:
  assumes fin: "finite existing"
    and inj: "inj_on (uri_toString h) (range (notebookUri_for sch))"
  shows "\<exists>n\<ge>k. uri_toString h (notebookUri_for sch n) \<notin> existing"
proof (rule ccontr)
  assume "\<not> ?thesis"
  then have sub: "(\<lambda>n. uri_toString h (notebookUri_for sch n)) ` {k..} \<subseteq> existing" by auto
  have "inj_on (\<lambda>n. uri_toString h (notebookUri_for sch n)) {k..}"
  proof (rule inj_onI)
    fix x y assume "uri_toString h (notebookUri_for sch x) = uri_toString h (notebookUri_for sch y)"
    with inj have "notebookUri_for sch x = notebookUri_for sch y"
      by (auto dest: inj_onD)
    then show "x = y" by (rule notebookUri_for_inj)
  qed
  with sub fin have "finite {k..}"
    by (meson finite_imageD finite_subset)
  then show False by (simp add: infinite_Ici)
qed

lemma mint_least:
  assumes fin: "finite existing"
    and inj: "inj_on (uri_toString h) (range (notebookUri_for sch))"
  shows "\<exists>n\<ge>k. mint h sch existing k = Some (notebookUri_for sch n, inputUri_for sch n)
           \<and> uri_toString h (notebookUri_for sch n) \<notin> existing
           \<and> (\<forall>m. k \<le> m \<and> m < n \<longrightarrow> uri_toString h (notebookUri_for sch m) \<in> existing)"
proof -
  define P where "P n \<longleftrightarrow> k \<le> n \<and> uri_toString h (notebookUri_for sch n) \<notin> existing" for n
  from free_suffix_exists [OF fin inj, of k] obtain n0 where "P n0" by (auto simp: P_def)
  define n where "n = (LEAST n. P n)"
  have Pn: "P n" unfolding n_def using \<open>P n0\<close> by (rule LeastI)
  have least: "\<not> P m" if "m < n" for m
    using that not_less_Least unfolding n_def by blast
  have below: "\<forall>m. k \<le> m \<and> m < n \<longrightarrow> uri_toString h (notebookUri_for sch m) \<in> existing"
    using least by (auto simp: P_def)
  from Pn have kn: "k \<le> n" and free: "uri_toString h (notebookUri_for sch n) \<notin> existing"
    by (simp_all add: P_def)
  from mint_reaches [OF free below kn] kn free below show ?thesis by blast
qed

lemma set_map_filter_Some:
  "set (List.map_filter f xs) = {y. \<exists>x \<in> set xs. f x = Some y}"
  by (induction xs) (auto simp: List.map_filter_simps split: option.splits)

lemma existingNotebookDocument_iff:
  "s \<in> existingNotebookDocument h es \<longleftrightarrow>
     (\<exists>e \<in> set (getEditors es). \<exists>u. input_resource (editor e) = Some u \<and> uri_toString h u = s)"
  by (auto simp: existingNotebookDocument_def set_map_filter_Some)

text \<open>
  C5. When \<^verbatim>\<open>interactive.open\<close> does not reuse an open editor, it returns: the suffix \<open>n\<close> of
  the URIs it mints is the least positive integer such that no open editor (no entry of
  \<^verbatim>\<open>getEditors\<close>, of whatever class) has a resource with the string of the notebook URI
  \<^verbatim>\<open>Interactive-<n>.interactive\<close> (scheme \<^verbatim>\<open>vscodeInteractive\<close>): no open editor has it for \<open>n\<close>,
  and for every smaller positive \<open>m\<close> some open editor has it. The input URI
  \<^verbatim>\<open>InteractiveInput-<n>\<close> (scheme \<^verbatim>\<open>vscodeInteractiveInput\<close>) has the same \<open>n\<close>. \<^verbatim>\<open>URI.toString\<close>
  is assumed to tell the minted notebook URIs apart. The counter is a natural number: a
  JavaScript number counts exactly far beyond any number of open editors.
\<close>

theorem open_mints_least_free_suffix:
  assumes fresh: "existing_session h sch es resource = None"
    and inj: "inj_on (uri_toString h) (range (notebookUri_for sch))"
  shows "\<exists>n r. 0 < n
           \<and> interactive_open_run h sch svc es viewGroup resource hist = Some r
           \<and> notebookUri r = URI_from (vscodeInteractive sch) (''Interactive-'' @ number_toString n @ ''.interactive'')
           \<and> inputUri r = URI_from (vscodeInteractiveInput sch) (''InteractiveInput-'' @ number_toString n)
           \<and> (\<forall>e \<in> set (getEditors es). \<forall>u. input_resource (editor e) = Some u \<longrightarrow>
                 uri_toString h u \<noteq> uri_toString h (notebookUri r))
           \<and> (\<forall>m. 0 < m \<and> m < n \<longrightarrow>
                 (\<exists>e \<in> set (getEditors es). \<exists>u. input_resource (editor e) = Some u
                    \<and> uri_toString h u =
                        uri_toString h (URI_from (vscodeInteractive sch)
                                          (''Interactive-'' @ number_toString m @ ''.interactive''))))"
proof -
  have fin: "finite (existingNotebookDocument h es)"
    by (simp add: existingNotebookDocument_def)
  from mint_least [OF fin inj, of 1] obtain n where n: "1 \<le> n"
    and m: "mint h sch (existingNotebookDocument h es) 1 = Some (notebookUri_for sch n, inputUri_for sch n)"
    and free: "uri_toString h (notebookUri_for sch n) \<notin> existingNotebookDocument h es"
    and below: "\<forall>m. 1 \<le> m \<and> m < n \<longrightarrow> uri_toString h (notebookUri_for sch m) \<in> existingNotebookDocument h es"
    by blast
  let ?r = "\<lparr>notebookUri = notebookUri_for sch n, inputUri = inputUri_for sch n,
             opened = (InteractiveEditorInput (notebookUri_for sch n) (inputUri_for sch n), viewGroup),
             history_after = clearHistory svc (notebookUri_for sch n) hist\<rparr>"
  from fresh m have run: "interactive_open_run h sch svc es viewGroup resource hist = Some ?r"
    by (simp add: interactive_open_run_def)
  from free have free': "\<forall>e \<in> set (getEditors es). \<forall>u. input_resource (editor e) = Some u \<longrightarrow>
                 uri_toString h u \<noteq> uri_toString h (notebookUri ?r)"
    by (auto simp: existingNotebookDocument_iff)
  have below': "\<forall>m. 0 < m \<and> m < n \<longrightarrow>
                 (\<exists>e \<in> set (getEditors es). \<exists>u. input_resource (editor e) = Some u
                    \<and> uri_toString h u =
                        uri_toString h (URI_from (vscodeInteractive sch)
                                          (''Interactive-'' @ number_toString m @ ''.interactive'')))"
  proof (intro allI impI)
    fix m assume "0 < m \<and> m < n"
    with below have "uri_toString h (notebookUri_for sch m) \<in> existingNotebookDocument h es"
      by (simp add: Suc_le_eq)
    then show "\<exists>e \<in> set (getEditors es). \<exists>u. input_resource (editor e) = Some u
                    \<and> uri_toString h u =
                        uri_toString h (URI_from (vscodeInteractive sch)
                                          (''Interactive-'' @ number_toString m @ ''.interactive''))"
      by (simp add: existingNotebookDocument_iff notebookUri_for_def)
  qed
  from n have "0 < n" by simp
  with run free' below' show ?thesis
    by (intro exI [of _ n] exI [of _ ?r]) (simp add: notebookUri_for_def inputUri_for_def)
qed

lemma example_host_inj: "inj_on (uri_toString example_host) (range (notebookUri_for sch))"
proof (rule inj_onI)
  fix x y
  assume "x \<in> range (notebookUri_for sch)" "y \<in> range (notebookUri_for sch)"
    and e: "uri_toString example_host x = uri_toString example_host y"
  then obtain n m where x: "x = notebookUri_for sch n" and y: "y = notebookUri_for sch m" by blast
  from e have "number_toString n = number_toString m"
    by (simp add: x y example_host_def uri_text_notebookUri)
  then have "n = m" by (rule number_toString_inj)
  then show "x = y" by (simp add: x y)
qed

lemma example_numbers4: "number_toString 4 = ''4''"
  by (simp add: number_toString_digit digit_def)

lemma example_editors_existing:
  "existingNotebookDocument example_host example_editors =
     {uri_text (notebookUri_for example_schemas 1), uri_text (notebookUri_for example_schemas 2),
      uri_text (notebookUri_for example_schemas 4)}"
  by (simp add: existingNotebookDocument_def example_editors_def List.map_filter_simps
      example_host_toString)

theorem open_mints_least_free_suffix_witness:
  "existing_session example_host example_schemas example_editors None = None
   \<and> (\<exists>r. interactive_open_run example_host example_schemas history_store example_editors 0 None store_empty = Some r
          \<and> notebookUri r = URI_from ''vscode-interactive'' ''Interactive-3.interactive''
          \<and> inputUri r = URI_from ''vscode-interactive-input'' ''InteractiveInput-3'')"
proof -
  have fresh: "existing_session example_host example_schemas example_editors None = None"
    by (simp add: existing_session_def)
  from open_mints_least_free_suffix [OF fresh example_host_inj, of history_store 0 store_empty]
  obtain n r where pos: "0 < n"
    and run: "interactive_open_run example_host example_schemas history_store example_editors 0 None store_empty = Some r"
    and nu: "notebookUri r = notebookUri_for example_schemas n"
    and iu: "inputUri r = inputUri_for example_schemas n"
    and free: "\<forall>e \<in> set (getEditors example_editors). \<forall>u. input_resource (editor e) = Some u \<longrightarrow>
                 uri_toString example_host u \<noteq> uri_toString example_host (notebookUri r)"
    and below: "\<forall>m. 0 < m \<and> m < n \<longrightarrow>
                 (\<exists>e \<in> set (getEditors example_editors). \<exists>u. input_resource (editor e) = Some u
                    \<and> uri_toString example_host u = uri_toString example_host (notebookUri_for example_schemas m))"
    unfolding notebookUri_for_def inputUri_for_def by blast
  from free nu have "uri_text (notebookUri_for example_schemas n)
                       \<notin> existingNotebookDocument example_host example_editors"
    unfolding existingNotebookDocument_iff example_host_toString by auto
  then have "number_toString n \<noteq> ''1''" "number_toString n \<noteq> ''2''"
    by (auto simp: example_editors_existing uri_text_notebookUri example_numbers)
  then have "n \<noteq> 1" "n \<noteq> 2"
    by (auto simp: example_numbers)
  moreover have "\<not> 3 < n"
  proof
    assume "3 < n"
    with below have "\<exists>e \<in> set (getEditors example_editors). \<exists>u. input_resource (editor e) = Some u
                    \<and> uri_toString example_host u = uri_toString example_host (notebookUri_for example_schemas 3)"
      by simp
    then have "uri_text (notebookUri_for example_schemas 3)
                 \<in> existingNotebookDocument example_host example_editors"
      unfolding existingNotebookDocument_iff example_host_toString by auto
    then show False
      by (simp add: example_editors_existing uri_text_notebookUri example_numbers example_numbers4)
  qed
  ultimately have "n = 3" using pos by arith
  with run nu iu fresh show ?thesis
    by (simp add: example_numbers example_schemas_def notebookUri_for_def inputUri_for_def)
qed

end
